theory Spec2Isabelle
  imports Complex_Main
begin

section \<open>JavaScript values and JSX markup\<close>

text \<open>
  The lesson code works on values parsed from JSON and builds JSX trees. A parsed
  value is a \<open>jsval\<close>; an object keeps its properties as an association list (the
  first binding of a key is the property's value). A string is held in UTF-8, a
  \<open>char\<close> being a byte. A number is held as the text that JavaScript's conversion of
  numbers to strings gives for it (\<open>172\<close>, \<open>1.72\<close>, \<open>1e+21\<close>): the text determines the
  number up to the sign of zero, and the pages do nothing with a number but print it
  and test it in an \<open>if\<close>.
\<close>

datatype jsval =
    JUndefined
  | JNull
  | JBool bool
  | JNum string
  | JStr string
  | JArr "jsval list"
  | JObj "(string \<times> jsval) list"

text \<open>
  A JSX tree: an element or component instance \<open>Tag name props children\<close>, literal
  text, or an embedded expression \<open>{e}\<close> holding the value of \<open>e\<close>. A prop is a
  string literal (\<open>path="/"\<close>), an expression value (\<open>key={person.url}\<close>), an element
  (\<open>element={<RecipeList />}\<close>) or a reference to a handler of the component
  (\<open>onClick={fetchRandomFact}\<close>).
\<close>

datatype markup =
    Tag string "(string \<times> jsx_prop) list" "markup list"
  | Txt string
  | Val jsval
and jsx_prop =
    PStr string
  | PVal jsval
  | PElem markup
  | PHandler string

section \<open>Static pages: \<open>about/page.js\<close> and \<open>contact/page.js\<close>\<close>

text \<open>
  \<^verbatim>\<open>function About() { return (<div><h1>About</h1><p>...</p></div>); }\<close>
  The functions declare no parameter; whatever the caller passes (React passes the
  props object) is ignored, so the argument is of any type.
\<close>

definition About :: "'a \<Rightarrow> markup" where
  "About props =
     Tag ''div'' []
       [Tag ''h1'' [] [Txt ''About''],
        Tag ''p'' [] [Txt ''This is the Star Wars app built with Next.js, leveraging SWAPI.'']]"

definition Contact :: "'a \<Rightarrow> markup" where
  "Contact props =
     Tag ''div'' []
       [Tag ''h1'' [] [Txt ''Contact''],
        Tag ''p'' [] [Txt ''You can reach us at contact@swapiapp.com.'']]"

section \<open>The router of \<open>App.js\<close>\<close>

text \<open>
  \<^verbatim>\<open><BrowserRouter><Routes>
       <Route path="/" element={<RecipeList />} />
       <Route path="/recipe/:id" element={<RecipeDetail />} />
     </Routes></BrowserRouter>\<close>
\<close>

definition App :: "'a \<Rightarrow> markup" where
  "App props =
     Tag ''BrowserRouter'' []
       [Tag ''Routes'' []
          [Tag ''Route'' [(''path'', PStr ''/''), (''element'', PElem (Tag ''RecipeList'' [] []))] [],
           Tag ''Route''
             [(''path'', PStr ''/recipe/:id''), (''element'', PElem (Tag ''RecipeDetail'' [] []))] []]]"

text \<open>
  The routes a tree defines: every \<open>Route\<close> element in it, in document order, as its
  \<open>path\<close> prop and the name of the component in its \<open>element\<close> prop.
\<close>

definition route_path :: "(string \<times> jsx_prop) list \<Rightarrow> string option" where
  "route_path ps = (case map_of ps ''path'' of Some (PStr s) \<Rightarrow> Some s | _ \<Rightarrow> None)"

definition route_element :: "(string \<times> jsx_prop) list \<Rightarrow> string option" where
  "route_element ps =
     (case map_of ps ''element'' of Some (PElem (Tag c _ _)) \<Rightarrow> Some c | _ \<Rightarrow> None)"

fun routes_of :: "markup \<Rightarrow> (string option \<times> string option) list" where
  "routes_of (Tag n ps cs) =
     (if n = ''Route'' then [(route_path ps, route_element ps)] else [])
       @ concat (map routes_of cs)"
| "routes_of (Txt _) = []"
| "routes_of (Val _) = []"

section \<open>JavaScript primitives the pages use\<close>

text \<open>
  Every throw and every rejected promise of the source is a value: a read of an
  identifier that is bound nowhere, a property read, a method call or a string
  conversion on a value that does not support it, a rejected \<open>fetch\<close> (network failure)
  and a rejected \<open>res.json()\<close> (the body is not JSON).
\<close>

datatype js_error =
    ReferenceError string
  | TypeError
  | FetchRejected
  | JsonSyntaxError

definition js_bind :: "js_error + 'a \<Rightarrow> ('a \<Rightarrow> js_error + 'b) \<Rightarrow> js_error + 'b" where
  "js_bind m f = (case m of Inl e \<Rightarrow> Inl e | Inr x \<Rightarrow> f x)"

definition nullish :: "jsval \<Rightarrow> bool" where
  "nullish v = (v = JUndefined \<or> v = JNull)"

definition digit_char :: "nat \<Rightarrow> char" where
  "digit_char d =
     (if d = 0 then CHR ''0'' else if d = 1 then CHR ''1'' else if d = 2 then CHR ''2''
      else if d = 3 then CHR ''3'' else if d = 4 then CHR ''4'' else if d = 5 then CHR ''5''
      else if d = 6 then CHR ''6'' else if d = 7 then CHR ''7'' else if d = 8 then CHR ''8''
      else CHR ''9'')"

text \<open>The text of a length: a natural number in decimal.\<close>

fun string_of_nat :: "nat \<Rightarrow> string" where
  "string_of_nat n =
     (if n < 10 then [digit_char n]
      else string_of_nat (n div 10) @ [digit_char (n mod 10)])"

declare string_of_nat.simps [simp del]

text \<open>
  \<open>s.length\<close> counts UTF-16 code units: one for each character of one, two or three
  bytes in UTF-8, two for a character of four bytes. A continuation byte counts
  nothing.
\<close>

definition utf16_units :: "char \<Rightarrow> nat" where
  "utf16_units c =
     (if (of_char c :: nat) < 128 then 1
      else if (of_char c :: nat) < 192 then 0
      else if (of_char c :: nat) < 240 then 1
      else 2)"

definition utf16_length :: "string \<Rightarrow> nat" where
  "utf16_length s = sum_list (map utf16_units s)"

text \<open>
  \<open>v.k\<close> on a value that is neither null nor undefined, for the property names the
  source reads (none of them is inherited from a prototype, but \<open>length\<close> of arrays
  and strings): an absent property is \<open>undefined\<close>.
\<close>

definition field :: "jsval \<Rightarrow> string \<Rightarrow> jsval" where
  "field v k =
     (case v of
        JObj kvs \<Rightarrow> (case map_of kvs k of Some x \<Rightarrow> x | None \<Rightarrow> JUndefined)
      | JArr xs \<Rightarrow> (if k = ''length'' then JNum (string_of_nat (length xs)) else JUndefined)
      | JStr s \<Rightarrow> (if k = ''length'' then JNum (string_of_nat (utf16_length s)) else JUndefined)
      | _ \<Rightarrow> JUndefined)"

text \<open>\<open>v.k\<close> in general: a property read of null or undefined throws a TypeError.\<close>

definition get_prop :: "jsval \<Rightarrow> string \<Rightarrow> js_error + jsval" where
  "get_prop v k = (if nullish v then Inl TypeError else Inr (field v k))"

fun join :: "string \<Rightarrow> string list \<Rightarrow> string" where
  "join sep [] = []"
| "join sep [x] = x"
| "join sep (x # y # ys) = x @ sep @ join sep (y # ys)"

text \<open>The results of a sequence of evaluations: the first throw ends it.\<close>

fun collect_js :: "(js_error + 'a) list \<Rightarrow> js_error + 'a list" where
  "collect_js [] = Inr []"
| "collect_js (r # rs) = js_bind r (\<lambda>y. js_bind (collect_js rs) (\<lambda>ys. Inr (y # ys)))"

text \<open>
  String conversion, as a template literal \<open>`${v}`\<close> applies it. An array is its
  elements joined by commas, null and undefined elements left empty. A parsed object
  is \<open>[object Object]\<close> by the inherited \<open>toString\<close>; an object with a property
  \<open>toString\<close> of its own hides that method behind a value that cannot be called, and
  no \<open>valueOf\<close> gives a primitive then, so the conversion throws a TypeError.
\<close>

fun to_string :: "jsval \<Rightarrow> js_error + string" where
  "to_string JUndefined = Inr ''undefined''"
| "to_string JNull = Inr ''null''"
| "to_string (JBool b) = Inr (if b then ''true'' else ''false'')"
| "to_string (JNum t) = Inr t"
| "to_string (JStr s) = Inr s"
| "to_string (JArr xs) =
     js_bind (collect_js (map (\<lambda>x. if nullish x then Inr [] else to_string x) xs))
       (\<lambda>ss. Inr (join '','' ss))"
| "to_string (JObj kvs) =
     (case map_of kvs ''toString'' of
        None \<Rightarrow> Inr ''[object Object]''
      | Some v \<Rightarrow> Inl TypeError)"

text \<open>The test of \<open>if (v)\<close>: of the numbers, zero and NaN are falsy.\<close>

fun truthy :: "jsval \<Rightarrow> bool" where
  "truthy JUndefined = False"
| "truthy JNull = False"
| "truthy (JBool b) = b"
| "truthy (JNum t) = (t \<noteq> ''0'' \<and> t \<noteq> ''NaN'')"
| "truthy (JStr s) = (s \<noteq> [])"
| "truthy (JArr xs) = True"
| "truthy (JObj kvs) = True"

text \<open>
  \<open>s.split(c)\<close> for a one-character separator: the pieces between the separators,
  empty pieces kept, so the result is never empty (the last case is unreachable).
\<close>

fun split_js :: "char \<Rightarrow> string \<Rightarrow> string list" where
  "split_js c [] = [[]]"
| "split_js c (x # xs) =
     (if x = c then [] # split_js c xs
      else (case split_js c xs of y # ys \<Rightarrow> (x # y) # ys | [] \<Rightarrow> [[x]]))"

text \<open>\<open>xs[i]\<close> on an array of strings: \<open>undefined\<close> outside the array.\<close>

definition index_js :: "string list \<Rightarrow> int \<Rightarrow> jsval" where
  "index_js xs i = (if 0 \<le> i \<and> i < int (length xs) then JStr (xs ! nat i) else JUndefined)"

text \<open>
  A template literal with two substitutions, \<open>`${a}mid${b}end`\<close>: each expression is
  evaluated and converted to a string, in this order.
\<close>

definition template2 ::
  "js_error + jsval \<Rightarrow> string \<Rightarrow> js_error + jsval \<Rightarrow> string \<Rightarrow> js_error + string" where
  "template2 a mid b end_text =
     js_bind a (\<lambda>x. js_bind (to_string x) (\<lambda>s.
     js_bind b (\<lambda>y. js_bind (to_string y) (\<lambda>t.
       Inr (s @ mid @ t @ end_text)))))"

text \<open>
  The network is an input: what a GET of a URL yields. \<open>fetch\<close> rejects, or it
  resolves and \<open>res.json()\<close> rejects, or the body parses to a value.
\<close>

datatype net_outcome = Rejects | NotJson | Json jsval

type_synonym network = "string \<Rightarrow> net_outcome"

section \<open>Navbar and Layout: \<open>components/Navbar.js\<close>, \<open>components/Layout.js\<close>\<close>

definition Navbar :: markup where
  "Navbar =
     Tag ''nav'' []
       [Tag ''ul'' []
          [Tag ''li'' [] [Tag ''Link'' [(''href'', PStr ''/'')] [Txt ''Home'']],
           Tag ''li'' [] [Tag ''Link'' [(''href'', PStr ''/about'')] [Txt ''About'']],
           Tag ''li'' [] [Tag ''Link'' [(''href'', PStr ''/contact'')] [Txt ''Contact'']]]]"

definition Layout :: "markup list \<Rightarrow> markup" where
  "Layout children = Tag ''div'' [] [Navbar, Tag ''main'' [] children]"

section \<open>The list page: \<open>app/page.js\<close>\<close>

text \<open>
  \<^verbatim>\<open>async function fetchPeople() {
       const response = await fetch('https://swapi.dev/api/people/');
       const data = await response.json();
       return data.results;
     }\<close>
  The result is paired with the requests the call issued.
\<close>

definition people_url :: string where
  "people_url = ''https://swapi.dev/api/people/''"

definition fetchPeople :: "network \<Rightarrow> (js_error + jsval) \<times> string list" where
  "fetchPeople net =
     ((case net people_url of
         Rejects \<Rightarrow> Inl FetchRejected
       | NotJson \<Rightarrow> Inl JsonSyntaxError
       | Json data \<Rightarrow> get_prop data ''results''),
      [people_url])"

text \<open>
  The id in an entry's link target: \<open>person.url.split('/')[5]\<close>, converted to a string
  by the template literal. Only a string has \<open>split\<close>.
\<close>

definition person_id :: "jsval \<Rightarrow> js_error + string" where
  "person_id person =
     js_bind (get_prop person ''url'') (\<lambda>url.
       (case url of
          JStr u \<Rightarrow> to_string (index_js (split_js CHR ''/'' u) 5)
        | _ \<Rightarrow> Inl TypeError))"

text \<open>
  The callback of \<open>people.map\<close>:
  \<^verbatim>\<open><li key={person.url}>
       <Link href={`/character/${person.url.split('/')[5]}`}>{person.name}</Link>
     </li>\<close>
\<close>

definition person_item :: "jsval \<Rightarrow> js_error + markup" where
  "person_item person =
     js_bind (get_prop person ''url'') (\<lambda>key.
     js_bind (person_id person) (\<lambda>pid.
     js_bind (get_prop person ''name'') (\<lambda>name.
       Inr (Tag ''li'' [(''key'', PVal key)]
              [Tag ''Link'' [(''href'', PVal (JStr (''/character/'' @ pid)))] [Val name]]))))"

text \<open>\<open>xs.map(f)\<close> where \<open>f\<close> may throw: the first throw ends the map.\<close>

fun map_js :: "('a \<Rightarrow> js_error + 'b) \<Rightarrow> 'a list \<Rightarrow> js_error + 'b list" where
  "map_js f [] = Inr []"
| "map_js f (x # xs) = js_bind (f x) (\<lambda>y. js_bind (map_js f xs) (\<lambda>ys. Inr (y # ys)))"

text \<open>
  \<open>Home\<close>: awaits \<open>fetchPeople()\<close> and maps the people to list entries. Only an array
  has \<open>map\<close>.
\<close>

definition Home :: "network \<Rightarrow> (js_error + markup) \<times> string list" where
  "Home net =
     (case fetchPeople net of (r, reqs) \<Rightarrow>
        (js_bind r (\<lambda>people.
           (case people of
              JArr items \<Rightarrow>
                js_bind (map_js person_item items) (\<lambda>lis.
                  Inr (Layout
                         [Tag ''div'' []
                            [Tag ''h1'' [] [Txt ''Star Wars Characters''],
                             Tag ''ul'' [] lis]]))
            | _ \<Rightarrow> Inl TypeError)),
         reqs))"

text \<open>
  The trailing path segment of a URL, in the words of the specification: the last
  non-empty piece between slashes.
\<close>

definition trailing_path_segment :: "string \<Rightarrow> string option" where
  "trailing_path_segment u =
     (case filter (\<lambda>s. s \<noteq> []) (split_js CHR ''/'' u) of
        [] \<Rightarrow> None
      | p # ps \<Rightarrow> Some (last (p # ps)))"

section \<open>The detail page: \<open>app/character/[id]/page.js\<close>\<close>

text \<open>
  The two \<open>useState\<close> cells of the component, the log of the network requests issued
  so far (the only effect the page has outside its own state), and the requests
  whose fetch has not settled yet.
\<close>

record detail_page =
  character :: jsval
  randomFact :: jsval
  requests :: "string list"
  inflight :: "string list"

text \<open>\<open>useState(null)\<close>, \<open>useState('')\<close>, nothing requested yet.\<close>

definition initial_page :: detail_page where
  "initial_page = \<lparr>character = JNull, randomFact = JStr [], requests = [], inflight = []\<rparr>"

text \<open>
  \<^verbatim>\<open>const fetchCharacter = async () => {
       const res = await fetch(`https://swapi.dev/api/people/${id}`);
       const data = await res.json();
       setCharacter(data);
     };\<close>
  A call runs to its first \<open>await\<close>: it builds the URL (the conversion of the id
  may throw, which rejects the promise) and calls \<open>fetch\<close>. The rest of the call runs
  when that fetch settles, whatever happened in between: a rejection of \<open>fetch\<close> or of
  \<open>json()\<close> rejects the promise, a parsed body is stored. The second component of a
  result is the reason of the promise's rejection, if it rejects.
\<close>

definition character_url :: "jsval \<Rightarrow> js_error + string" where
  "character_url ident =
     js_bind (to_string ident) (\<lambda>s. Inr (''https://swapi.dev/api/people/'' @ s))"

definition fetch_issue :: "string \<Rightarrow> detail_page \<Rightarrow> detail_page" where
  "fetch_issue u st = st\<lparr>requests := requests st @ [u], inflight := inflight st @ [u]\<rparr>"

definition fetchCharacter_call :: "jsval \<Rightarrow> detail_page \<Rightarrow> detail_page \<times> js_error option" where
  "fetchCharacter_call ident st =
     (case character_url ident of
        Inl e \<Rightarrow> (st, Some e)
      | Inr u \<Rightarrow> (fetch_issue u st, None))"

definition drop_nth :: "nat \<Rightarrow> 'a list \<Rightarrow> 'a list" where
  "drop_nth k xs = take k xs @ drop (Suc k) xs"

definition fetchCharacter_settle ::
  "nat \<Rightarrow> net_outcome \<Rightarrow> detail_page \<Rightarrow> detail_page \<times> js_error option" where
  "fetchCharacter_settle k out st =
     (let st1 = st\<lparr>inflight := drop_nth k (inflight st)\<rparr> in
      (case out of
         Rejects \<Rightarrow> (st1, Some FetchRejected)
       | NotJson \<Rightarrow> (st1, Some JsonSyntaxError)
       | Json data \<Rightarrow> (st1\<lparr>character := data\<rparr>, None)))"

text \<open>
  A whole call of \<open>fetchCharacter\<close> against a network, when its fetch settles before
  anything else happens.
\<close>

definition fetchCharacter :: "network \<Rightarrow> jsval \<Rightarrow> detail_page \<Rightarrow> detail_page \<times> js_error option" where
  "fetchCharacter net ident st =
     (case character_url ident of
        Inl e \<Rightarrow> (st, Some e)
      | Inr u \<Rightarrow> fetchCharacter_settle (length (inflight st)) (net u) (fetch_issue u st))"

text \<open>
  The effect: \<^verbatim>\<open>if (id) { ...; fetchCharacter(); }\<close>. The call is not awaited, so the
  effect ends when the fetch is issued, and a rejection stays with the promise: an
  unhandled rejection.
\<close>

definition Character_effect :: "jsval \<Rightarrow> detail_page \<Rightarrow> detail_page \<times> js_error option" where
  "Character_effect ident st =
     (if truthy ident then fetchCharacter_call ident st else (st, None))"

text \<open>
  \<^verbatim>\<open>const facts = [
       `${character.name} appeared in ${character.films.length} films.`,
       `${character.name} is ${character.height}cm tall.`,
       `${character.name} has ${character.eye_color} eyes.`,
       `${character.name}'s birth year is ${character.birth_year}.` ];\<close>
\<close>

definition facts_of :: "jsval \<Rightarrow> js_error + string list" where
  "facts_of c =
     js_bind (template2 (get_prop c ''name'') '' appeared in ''
                (js_bind (get_prop c ''films'') (\<lambda>films. get_prop films ''length''))
                '' films.'') (\<lambda>f0.
     js_bind (template2 (get_prop c ''name'') '' is '' (get_prop c ''height'') ''cm tall.'') (\<lambda>f1.
     js_bind (template2 (get_prop c ''name'') '' has '' (get_prop c ''eye_color'') '' eyes.'') (\<lambda>f2.
     js_bind (template2 (get_prop c ''name'') ([CHR 0x27] @ ''s birth year is '')
                (get_prop c ''birth_year'') ''.'') (\<lambda>f3.
       Inr [f0, f1, f2, f3]))))"

text \<open>
  \<open>Math.floor(Math.random() * facts.length)\<close>, where \<open>r\<close> is what \<open>Math.random()\<close>
  returned. On the reals; for four facts the floating-point product is exact
  (a scaling by a power of two), so it is what JavaScript computes.
\<close>

definition fact_index :: "real \<Rightarrow> nat \<Rightarrow> int" where
  "fact_index r n = \<lfloor>r * real n\<rfloor>"

text \<open>
  \<^verbatim>\<open>const fetchRandomFact = () => {
       const facts = [...];
       const i = Math.floor(Math.random() * facts.length);
       setRandomFact(facts[i]);
     };\<close>
\<close>

definition fetchRandomFact :: "real \<Rightarrow> detail_page \<Rightarrow> js_error + detail_page" where
  "fetchRandomFact r st =
     js_bind (facts_of (character st)) (\<lambda>facts.
       Inr (st\<lparr>randomFact := index_js facts (fact_index r (length facts))\<rparr>))"

text \<open>The JSX the component returns, from its two state cells.\<close>

definition Character_view :: "detail_page \<Rightarrow> js_error + markup" where
  "Character_view st =
     js_bind (get_prop (character st) ''name'') (\<lambda>name.
     js_bind (get_prop (character st) ''mass'') (\<lambda>mass.
     js_bind (get_prop (character st) ''hair_color'') (\<lambda>hair_color.
     js_bind (get_prop (character st) ''skin_color'') (\<lambda>skin_color.
     js_bind (get_prop (character st) ''gender'') (\<lambda>gender.
       Inr (Layout
              [Tag ''div'' []
                 [Tag ''h1'' [] [Val name],
                  Tag ''p'' [] [Txt ''Mass: '', Val mass],
                  Tag ''p'' [] [Txt ''Hair Color: '', Val hair_color],
                  Tag ''p'' [] [Txt ''Skin Color: '', Val skin_color],
                  Tag ''p'' [] [Txt ''Gender: '', Val gender],
                  Tag ''button'' [(''onClick'', PHandler ''fetchRandomFact'')]
                    [Txt ''Show Random Fact''],
                  Tag ''p'' [] [Val (randomFact st)]]]))))))"

text \<open>
  The identifiers the module binds: its imports
  (\<^verbatim>\<open>import { useParams } from 'next/navigation'; import { useState, useEffect } from 'react';
     import Layout from '../../../components/Layout'\<close>) and the function it declares.
\<close>

definition page_scope :: "string list" where
  "page_scope = [''useParams'', ''useState'', ''useEffect'', ''Layout'', ''Character'']"

text \<open>
  One render of \<open>Character\<close>. \<open>globals\<close> are the names the host's global object binds,
  \<open>router\<close> is what a bound \<open>useRouter\<close> would return:
  \<^verbatim>\<open>const router = useRouter();
     const { id } = router.query;
     ... useState, useEffect(..., [id]) ...
     return (<Layout>...</Layout>);\<close>
  A render that returns gives the id the effect depends on and the markup.
\<close>

definition Character :: "string list \<Rightarrow> jsval \<Rightarrow> detail_page \<Rightarrow> js_error + (jsval \<times> markup)" where
  "Character globals router st =
     (if ''useRouter'' \<notin> set (page_scope @ globals) then Inl (ReferenceError ''useRouter'')
      else
        js_bind (get_prop router ''query'') (\<lambda>query.
        js_bind (get_prop query ''id'') (\<lambda>ident.
        js_bind (Character_view st) (\<lambda>m. Inr (ident, m)))))"

text \<open>
  The life of a mounted page, as the sequence of its events: the effect runs for an
  id and issues its fetch; the fetch at position \<open>k\<close> of those in flight settles with
  an outcome and the rest of its \<open>fetchCharacter\<close> call runs; the button is activated
  and \<open>Math.random()\<close> returns \<open>r\<close>. Fetches settle in any order, nothing cancels one,
  and there is nothing to settle at a position where no fetch is in flight. A
  handler that throws and a promise that rejects leave the state as it was.
\<close>

datatype event = EffectRun jsval | Settle nat net_outcome | Click real

fun step :: "detail_page \<Rightarrow> event \<Rightarrow> detail_page" where
  "step st (EffectRun ident) = fst (Character_effect ident st)"
| "step st (Settle k out) =
     (if k < length (inflight st) then fst (fetchCharacter_settle k out st) else st)"
| "step st (Click r) = (case fetchRandomFact r st of Inl e \<Rightarrow> st | Inr st' \<Rightarrow> st')"

definition run :: "detail_page \<Rightarrow> event list \<Rightarrow> detail_page" where
  "run st evs = foldl step st evs"

text \<open>
  The most recent successful fetch of a history, in the words of the specification:
  a fetch succeeds when it settles with a parsed body, so the successful fetches, in
  the order in which they succeeded, are the bodies of the settlements of fetches
  that were in flight (\<open>n\<close> counts those), and the most recent one is the last.
\<close>

definition issues_fetch :: "jsval \<Rightarrow> bool" where
  "issues_fetch ident =
     (truthy ident \<and> (case character_url ident of Inl e \<Rightarrow> False | Inr u \<Rightarrow> True))"

fun successful_fetches :: "nat \<Rightarrow> event list \<Rightarrow> jsval list" where
  "successful_fetches n [] = []"
| "successful_fetches n (EffectRun ident # evs) =
     successful_fetches (if issues_fetch ident then Suc n else n) evs"
| "successful_fetches n (Settle k out # evs) =
     (if k < n
      then (case out of Json data \<Rightarrow> [data] | _ \<Rightarrow> []) @ successful_fetches (n - 1) evs
      else successful_fetches n evs)"
| "successful_fetches n (Click r # evs) = successful_fetches n evs"

definition last_successful_fetch :: "event list \<Rightarrow> jsval option" where
  "last_successful_fetch evs =
     (if successful_fetches 0 evs = [] then None else Some (last (successful_fetches 0 evs)))"

section \<open>Auxiliary facts\<close>

lemma js_bind_Inr [simp]: "js_bind (Inr x) f = f x"
  by (simp add: js_bind_def)

lemma js_bind_Inl [simp]: "js_bind (Inl e) f = Inl e"
  by (simp add: js_bind_def)

lemma get_prop_Inr_iff: "get_prop v k = Inr x \<longleftrightarrow> \<not> nullish v \<and> x = field v k"
  by (auto simp: get_prop_def)

lemma last_filter_keep: "xs \<noteq> [] \<Longrightarrow> P (last xs) \<Longrightarrow> last (filter P xs) = last xs"
  by (induction xs) (auto simp: filter_empty_conv)

lemma trailing_of_last:
  assumes "xs \<noteq> []" "last xs \<noteq> []" "split_js CHR ''/'' u = xs @ tl0" "tl0 = [] \<or> tl0 = [[]]"
  shows "trailing_path_segment u = Some (last xs)"
proof -
  let ?f = "filter (\<lambda>s. s \<noteq> []) xs"
  have f: "filter (\<lambda>s. s \<noteq> []) (split_js CHR ''/'' u) = ?f"
    using assms(3,4) by auto
  have ne: "?f \<noteq> []"
    using assms(1,2) by (metis (mono_tags, lifting) filter_empty_conv last_in_set)
  have l: "last ?f = last xs"
    using assms(1,2) by (simp add: last_filter_keep)
  show ?thesis
    unfolding trailing_path_segment_def f using ne l by (cases ?f) auto
qed

lemma map_js_Inr: "(\<And>x. x \<in> set xs \<Longrightarrow> f x = Inr (g x)) \<Longrightarrow> map_js f xs = Inr (map g xs)"
  by (induction xs) auto

lemma to_string_index_js:
  "to_string (index_js xs i) =
     Inr (if 0 \<le> i \<and> i < int (length xs) then xs ! nat i else ''undefined'')"
  by (simp add: index_js_def)

lemma person_item_Inr:
  assumes "get_prop p ''url'' = Inr (JStr u)"
  shows "person_item p =
     Inr (Tag ''li'' [(''key'', PVal (field p ''url''))]
            [Tag ''Link''
               [(''href'', PVal (JStr (''/character/''
                   @ (if 5 < length (split_js CHR ''/'' u) then split_js CHR ''/'' u ! 5
                      else ''undefined''))))]
               [Val (field p ''name'')]])"
    and "person_id p =
     Inr (if 5 < length (split_js CHR ''/'' u) then split_js CHR ''/'' u ! 5 else ''undefined'')"
  using assms
  by (auto simp: person_item_def person_id_def get_prop_def to_string_index_js split: if_splits)

lemma template2_Inr:
  assumes "a = Inr x" "to_string x = Inr s" "b = Inr y" "to_string y = Inr t"
  shows "template2 a mid b e = Inr (s @ mid @ t @ e)"
  using assms by (simp add: template2_def)

lemma facts_of_Inr:
  assumes "\<not> nullish c" "\<not> nullish (field c ''films'')"
    and "to_string (field c ''name'') = Inr name"
    and "to_string (field (field c ''films'') ''length'') = Inr film_count"
    and "to_string (field c ''height'') = Inr height"
    and "to_string (field c ''eye_color'') = Inr eye_color"
    and "to_string (field c ''birth_year'') = Inr birth_year"
  shows "facts_of c =
     Inr [name @ '' appeared in '' @ film_count @ '' films.'',
          name @ '' is '' @ height @ ''cm tall.'',
          name @ '' has '' @ eye_color @ '' eyes.'',
          name @ [CHR 0x27] @ ''s birth year is '' @ birth_year @ ''.'']"
proof -
  have films: "js_bind (get_prop c ''films'') (\<lambda>films. get_prop films ''length'')
      = Inr (field (field c ''films'') ''length'')"
    using assms(1,2) by (simp add: get_prop_def)
  have p: "get_prop c k = Inr (field c k)" for k
    using assms(1) by (simp add: get_prop_def)
  show ?thesis
    unfolding facts_of_def
    by (simp add: template2_Inr [OF p assms(3) films assms(4)]
        template2_Inr [OF p assms(3) p assms(5)]
        template2_Inr [OF p assms(3) p assms(6)]
        template2_Inr [OF p assms(3) p assms(7)])
qed

lemma facts_of_length: "facts_of c = Inr fs \<Longrightarrow> length fs = 4"
  by (auto simp: facts_of_def js_bind_def split: sum.splits)

lemma fact_index_iff: "(fact_index r 4 = k) = (real_of_int k / 4 \<le> r \<and> r < (real_of_int k + 1) / 4)"
  unfolding fact_index_def by (simp add: floor_eq_iff field_simps)

lemma fact_index_quarter:
  assumes "k \<in> {0, 1, 2, 3}"
  shows "{x. 0 \<le> x \<and> x < 1 \<and> fact_index x 4 = k}
     = {real_of_int k / 4 ..< (real_of_int k + 1) / 4}"
  using assms by (auto simp: fact_index_iff)

lemma fact_index_bounds:
  assumes "0 \<le> r" "r < 1" "0 < n"
  shows "0 \<le> fact_index r n \<and> fact_index r n < int n"
proof -
  have "0 \<le> r * real n" using assms by simp
  then have lo: "0 \<le> fact_index r n" by (simp add: fact_index_def)
  have "r * real n < real n" using assms by simp
  then have "fact_index r n < int n"
    unfolding fact_index_def by (simp add: floor_less_iff)
  with lo show ?thesis by simp
qed

lemma index_js_in_range:
  "0 \<le> i \<Longrightarrow> i < int (length xs) \<Longrightarrow> index_js xs i = JStr (xs ! nat i)"
  by (simp add: index_js_def)

lemma drop_nth_last: "drop_nth (length xs) (xs @ [u]) = xs"
  by (simp add: drop_nth_def)

lemma length_drop_nth: "k < length xs \<Longrightarrow> length (drop_nth k xs) = length xs - 1"
  by (auto simp: drop_nth_def)

lemma fetchCharacter_eq:
  "character_url i = Inr u \<Longrightarrow>
     fetchCharacter net i st =
       (case net u of
          Rejects \<Rightarrow> (st\<lparr>requests := requests st @ [u]\<rparr>, Some FetchRejected)
        | NotJson \<Rightarrow> (st\<lparr>requests := requests st @ [u]\<rparr>, Some JsonSyntaxError)
        | Json data \<Rightarrow> (st\<lparr>character := data, requests := requests st @ [u]\<rparr>, None))"
  "character_url i = Inl e \<Longrightarrow> fetchCharacter net i st = (st, Some e)"
  by (cases "net u";
      simp add: fetchCharacter_def fetchCharacter_settle_def fetch_issue_def drop_nth_last Let_def)+

lemma run_Cons: "run st (e # evs) = run (step st e) evs"
  by (simp add: run_def)

lemma step_EffectRun:
  "step st (EffectRun i) =
     (if issues_fetch i then fetch_issue (projr (character_url i)) st else st)"
  by (cases "character_url i")
    (simp_all add: Character_effect_def fetchCharacter_call_def issues_fetch_def)

lemma step_Settle:
  "k < length (inflight st) \<Longrightarrow>
     step st (Settle k out) =
       (case out of
          Json data \<Rightarrow> st\<lparr>character := data, inflight := drop_nth k (inflight st)\<rparr>
        | _ \<Rightarrow> st\<lparr>inflight := drop_nth k (inflight st)\<rparr>)"
  "\<not> k < length (inflight st) \<Longrightarrow> step st (Settle k out) = st"
  by (cases out; simp add: fetchCharacter_settle_def Let_def)+

lemma step_Click:
  "character (step st (Click r)) = character st"
  "inflight (step st (Click r)) = inflight st"
  "requests (step st (Click r)) = requests st"
  by (cases "facts_of (character st)"; simp add: fetchRandomFact_def)+

lemma character_run:
  "character (run st evs) = last (character st # successful_fetches (length (inflight st)) evs)"
proof (induction evs arbitrary: st)
  case Nil
  show ?case by (simp add: run_def)
next
  case (Cons e evs)
  show ?case
  proof (cases e)
    case (EffectRun i)
    then show ?thesis
      by (simp add: run_Cons Cons.IH step_EffectRun fetch_issue_def del: step.simps)
  next
    case (Settle k out)
    show ?thesis
    proof (cases "k < length (inflight st)")
      case True
      then show ?thesis
        by (cases out)
          (simp_all add: Settle run_Cons Cons.IH step_Settle length_drop_nth del: step.simps)
    next
      case False
      then show ?thesis
        by (simp add: Settle run_Cons Cons.IH step_Settle del: step.simps)
    qed
  next
    case (Click r)
    then show ?thesis
      by (simp add: run_Cons Cons.IH step_Click del: step.simps)
  qed
qed

lemma Character_view_eq:
  "Character_view st =
     (if nullish (character st) then Inl TypeError
      else Inr (Tag ''div'' []
        [Tag ''nav'' []
           [Tag ''ul'' []
              [Tag ''li'' [] [Tag ''Link'' [(''href'', PStr ''/'')] [Txt ''Home'']],
               Tag ''li'' [] [Tag ''Link'' [(''href'', PStr ''/about'')] [Txt ''About'']],
               Tag ''li'' [] [Tag ''Link'' [(''href'', PStr ''/contact'')] [Txt ''Contact'']]]],
         Tag ''main'' []
           [Tag ''div'' []
              [Tag ''h1'' [] [Val (field (character st) ''name'')],
               Tag ''p'' [] [Txt ''Mass: '', Val (field (character st) ''mass'')],
               Tag ''p'' [] [Txt ''Hair Color: '', Val (field (character st) ''hair_color'')],
               Tag ''p'' [] [Txt ''Skin Color: '', Val (field (character st) ''skin_color'')],
               Tag ''p'' [] [Txt ''Gender: '', Val (field (character st) ''gender'')],
               Tag ''button'' [(''onClick'', PHandler ''fetchRandomFact'')]
                 [Txt ''Show Random Fact''],
               Tag ''p'' [] [Val (randomFact st)]]]]))"
  by (simp add: Character_view_def get_prop_def Layout_def Navbar_def)

lemma Character_effect_request:
  "truthy i \<Longrightarrow> character_url i = Inr u \<Longrightarrow>
     Character_effect i st =
       (st\<lparr>requests := requests st @ [u], inflight := inflight st @ [u]\<rparr>, None)"
  "truthy i \<Longrightarrow> character_url i = Inr u \<Longrightarrow>
     step (fst (Character_effect i st)) (Settle (length (inflight st)) (Json d)) =
       st\<lparr>character := d, requests := requests st @ [u]\<rparr>"
  "\<not> truthy i \<Longrightarrow> Character_effect i st = (st, None)"
  by (simp_all add: Character_effect_def fetchCharacter_call_def fetch_issue_def
      fetchCharacter_settle_def drop_nth_last Let_def)

section \<open>The list page\<close>

text \<open>
  C1 (as amended). For every item whose \<open>url\<close> is a string, the navigable id in the
  item's link target is the piece at index 5 of the URL split at \<open>/\<close> (the text
  \<open>undefined\<close> when there are fewer than six pieces). It is the trailing path segment of
  the URL when that piece is not empty and is the last piece, or is followed by one
  empty piece only (a single closing slash), as in
  \<open>https://swapi.dev/api/people/1/\<close>.
\<close>

theorem person_id_sixth_piece:
  assumes "get_prop person ''url'' = Inr (JStr u)"
  shows "person_id person =
         Inr (if 5 < length (split_js CHR ''/'' u) then split_js CHR ''/'' u ! 5
              else ''undefined'')
     \<and> person_item person =
         Inr (Tag ''li'' [(''key'', PVal (JStr u))]
                [Tag ''Link''
                   [(''href'', PVal (JStr (''/character/''
                       @ (if 5 < length (split_js CHR ''/'' u) then split_js CHR ''/'' u ! 5
                          else ''undefined''))))]
                   [Val (field person ''name'')]])
     \<and> (split_js CHR ''/'' u ! 5 \<noteq> []
          \<and> (length (split_js CHR ''/'' u) = 6
              \<or> length (split_js CHR ''/'' u) = 7 \<and> split_js CHR ''/'' u ! 6 = [])
        \<longrightarrow> person_id person = Inr (split_js CHR ''/'' u ! 5)
            \<and> trailing_path_segment u = Some (split_js CHR ''/'' u ! 5))"
proof -
  let ?ps = "split_js CHR ''/'' u"
  have a: "person_id person = Inr (if 5 < length ?ps then ?ps ! 5 else ''undefined'')"
    by (rule person_item_Inr(2) [OF assms])
  have b: "person_id person = Inr (?ps ! 5) \<and> trailing_path_segment u = Some (?ps ! 5)"
    if ne: "?ps ! 5 \<noteq> []"
      and len: "length ?ps = 6 \<or> length ?ps = 7 \<and> ?ps ! 6 = []"
  proof -
    from len have five: "5 < length ?ps" by auto
    then have id: "person_id person = Inr (?ps ! 5)"
      using a by simp
    let ?xs = "take 6 ?ps"
    have xs_ne: "?xs \<noteq> []" using five by auto
    have last_xs: "last ?xs = ?ps ! 5"
    proof -
      have "length ?xs = 6" using five by simp
      then have "last ?xs = ?xs ! 5" using xs_ne by (simp add: last_conv_nth)
      then show ?thesis by simp
    qed
    have "\<exists>t. ?ps = ?xs @ t \<and> (t = [] \<or> t = [[]])"
    proof (rule disjE [OF len])
      assume "length ?ps = 6"
      then show ?thesis by simp
    next
      assume h: "length ?ps = 7 \<and> ?ps ! 6 = []"
      then have "drop 6 ?ps = [?ps ! 6]"
        by (metis Cons_nth_drop_Suc drop_all eval_nat_numeral(3) lessI order_refl numeral_eq_Suc)
      with h have "drop 6 ?ps = [[]]" by simp
      then have "?ps = ?xs @ [[]]" by (metis append_take_drop_id)
      then show ?thesis by blast
    qed
    then obtain t where t: "?ps = ?xs @ t" "t = [] \<or> t = [[]]" by blast
    have "trailing_path_segment u = Some (last ?xs)"
      by (rule trailing_of_last [OF xs_ne _ t]) (simp add: last_xs ne)
    with id last_xs show ?thesis by simp
  qed
  have f: "field person ''url'' = JStr u"
    using assms by (simp add: get_prop_Inr_iff)
  have c: "person_item person =
         Inr (Tag ''li'' [(''key'', PVal (JStr u))]
                [Tag ''Link''
                   [(''href'', PVal (JStr (''/character/''
                       @ (if 5 < length ?ps then ?ps ! 5 else ''undefined''))))]
                   [Val (field person ''name'')]])"
    using person_item_Inr(1) [OF assms] by (simp add: f)
  from a b c show ?thesis by blast
qed

theorem person_id_sixth_piece_witness:
  "get_prop (JObj [(''name'', JStr ''Luke Skywalker''), (''url'', JStr ''https://swapi.dev/api/people/1/'')]) ''url''
     = Inr (JStr ''https://swapi.dev/api/people/1/'')
   \<and> person_id (JObj [(''name'', JStr ''Luke Skywalker''), (''url'', JStr ''https://swapi.dev/api/people/1/'')])
     = Inr ''1''
   \<and> trailing_path_segment ''https://swapi.dev/api/people/1/'' = Some ''1''"
  using person_id_sixth_piece
    [of "JObj [(''name'', JStr ''Luke Skywalker''), (''url'', JStr ''https://swapi.dev/api/people/1/'')]"
        "''https://swapi.dev/api/people/1/''"]
  by (simp add: get_prop_def nullish_def field_def)

text \<open>
  The claim as first stated, with the trailing path segment for every URL, fails for a
  URL of another depth: the link gets the id \<open>people\<close>, the trailing segment is \<open>1\<close>.
\<close>

theorem person_id_not_trailing_counterexample:
  "person_id (JObj [(''name'', JStr ''Luke Skywalker''), (''url'', JStr ''https://swapi.dev/api/v2/people/1/'')])
     = Inr ''people''
   \<and> trailing_path_segment ''https://swapi.dev/api/v2/people/1/'' = Some ''1''
   \<and> person_id (JObj [(''name'', JStr ''Luke Skywalker''), (''url'', JStr ''https://swapi.dev/api/v2/people/1/'')])
     \<noteq> Inr ''1''"
  by (simp add: person_id_def get_prop_def nullish_def field_def index_js_def
      trailing_path_segment_def)

text \<open>
  C3 (as amended). For a list response whose \<open>results\<close> are \<open>n\<close> items, each with a
  string \<open>url\<close>, the list page issues the one request and renders, inside the layout
  and under its heading, exactly \<open>n\<close> entries, one per item and in the order of the
  response; each entry is a link to the item's character page that displays the
  item's \<open>name\<close>.
\<close>

theorem Home_lists_people:
  assumes net: "net people_url = Json data"
    and res: "get_prop data ''results'' = Inr (JArr items)"
    and urls: "\<forall>p\<in>set items. \<exists>u. get_prop p ''url'' = Inr (JStr u)"
  shows "\<exists>lis.
      Home net =
        (Inr (Tag ''div'' []
        [Tag ''nav'' []
           [Tag ''ul'' []
              [Tag ''li'' [] [Tag ''Link'' [(''href'', PStr ''/'')] [Txt ''Home'']],
               Tag ''li'' [] [Tag ''Link'' [(''href'', PStr ''/about'')] [Txt ''About'']],
               Tag ''li'' [] [Tag ''Link'' [(''href'', PStr ''/contact'')] [Txt ''Contact'']]]],
         Tag ''main'' []
           [Tag ''div'' []
              [Tag ''h1'' [] [Txt ''Star Wars Characters''],
               Tag ''ul'' [] lis]]]),
         [''https://swapi.dev/api/people/''])
      \<and> length lis = length items
      \<and> list_all2
          (\<lambda>p li. \<exists>pid. person_id p = Inr pid
             \<and> li = Tag ''li'' [(''key'', PVal (field p ''url''))]
                      [Tag ''Link'' [(''href'', PVal (JStr (''/character/'' @ pid)))]
                         [Val (field p ''name'')]])
          items lis"
proof -
  define pid where "pid p = (case person_id p of Inr s \<Rightarrow> s | Inl e \<Rightarrow> [])" for p
  define entry where
    "entry p = Tag ''li'' [(''key'', PVal (field p ''url''))]
                 [Tag ''Link'' [(''href'', PVal (JStr (''/character/'' @ pid p)))]
                    [Val (field p ''name'')]]" for p
  have item: "person_item p = Inr (entry p) \<and> person_id p = Inr (pid p)" if "p \<in> set items" for p
  proof -
    from urls that obtain u where u: "get_prop p ''url'' = Inr (JStr u)" by blast
    show ?thesis
      using person_item_Inr [OF u] by (simp add: entry_def pid_def)
  qed
  then have m: "map_js person_item items = Inr (map entry items)"
    by (intro map_js_Inr) simp
  have h: "Home net =
        (Inr (Tag ''div'' []
        [Tag ''nav'' []
           [Tag ''ul'' []
              [Tag ''li'' [] [Tag ''Link'' [(''href'', PStr ''/'')] [Txt ''Home'']],
               Tag ''li'' [] [Tag ''Link'' [(''href'', PStr ''/about'')] [Txt ''About'']],
               Tag ''li'' [] [Tag ''Link'' [(''href'', PStr ''/contact'')] [Txt ''Contact'']]]],
         Tag ''main'' []
           [Tag ''div'' []
              [Tag ''h1'' [] [Txt ''Star Wars Characters''],
               Tag ''ul'' [] (map entry items)]]]),
         [''https://swapi.dev/api/people/''])"
    using net by (simp add: Home_def fetchPeople_def people_url_def res m Layout_def Navbar_def)
  have l: "list_all2
          (\<lambda>p li. \<exists>s. person_id p = Inr s
             \<and> li = Tag ''li'' [(''key'', PVal (field p ''url''))]
                      [Tag ''Link'' [(''href'', PVal (JStr (''/character/'' @ s)))]
                         [Val (field p ''name'')]])
          items (map entry items)"
    using item by (auto simp: list_all2_map2 entry_def intro!: list_all2_all_nthI list.rel_refl_strong)
  from h l show ?thesis by (intro exI [of _ "map entry items"]) simp
qed

theorem Home_lists_people_witness:
  "Home (\<lambda>u. Json (JObj [(''count'', JNum ''2''), (''results'', JArr
       [JObj [(''name'', JStr ''Luke Skywalker''), (''url'', JStr ''https://swapi.dev/api/people/1/'')],
        JObj [(''name'', JStr ''C-3PO''), (''url'', JStr ''https://swapi.dev/api/people/2/'')]])]))
   = (Inr (Tag ''div'' []
        [Tag ''nav'' []
           [Tag ''ul'' []
              [Tag ''li'' [] [Tag ''Link'' [(''href'', PStr ''/'')] [Txt ''Home'']],
               Tag ''li'' [] [Tag ''Link'' [(''href'', PStr ''/about'')] [Txt ''About'']],
               Tag ''li'' [] [Tag ''Link'' [(''href'', PStr ''/contact'')] [Txt ''Contact'']]]],
         Tag ''main'' []
           [Tag ''div'' []
              [Tag ''h1'' [] [Txt ''Star Wars Characters''],
               Tag ''ul'' [] 
                 [Tag ''li'' [(''key'', PVal (JStr ''https://swapi.dev/api/people/1/''))]
                    [Tag ''Link'' [(''href'', PVal (JStr ''/character/1''))]
                       [Val (JStr ''Luke Skywalker'')]],
                  Tag ''li'' [(''key'', PVal (JStr ''https://swapi.dev/api/people/2/''))]
                    [Tag ''Link'' [(''href'', PVal (JStr ''/character/2''))]
                       [Val (JStr ''C-3PO'')]]]]]]),
      [''https://swapi.dev/api/people/''])"
  using Home_lists_people
    [of "\<lambda>u. Json (JObj [(''count'', JNum ''2''), (''results'', JArr
       [JObj [(''name'', JStr ''Luke Skywalker''), (''url'', JStr ''https://swapi.dev/api/people/1/'')],
        JObj [(''name'', JStr ''C-3PO''), (''url'', JStr ''https://swapi.dev/api/people/2/'')]])])"
      "JObj [(''count'', JNum ''2''), (''results'', JArr
       [JObj [(''name'', JStr ''Luke Skywalker''), (''url'', JStr ''https://swapi.dev/api/people/1/'')],
        JObj [(''name'', JStr ''C-3PO''), (''url'', JStr ''https://swapi.dev/api/people/2/'')]])]"
      "[JObj [(''name'', JStr ''Luke Skywalker''), (''url'', JStr ''https://swapi.dev/api/people/1/'')],
        JObj [(''name'', JStr ''C-3PO''), (''url'', JStr ''https://swapi.dev/api/people/2/'')]]"]
  by (simp add: Home_def fetchPeople_def people_url_def person_item_def person_id_def
      get_prop_def nullish_def field_def index_js_def Layout_def Navbar_def)

text \<open>
  The claim as first stated, for every list response, fails for a response of one item
  that has no \<open>url\<close>: the callback of the map throws (\<open>person.url\<close> is \<open>undefined\<close>, which
  has no \<open>split\<close>), and the page renders no entry.
\<close>

theorem Home_item_without_url_counterexample:
  "Home (\<lambda>u. Json (JObj [(''count'', JNum ''1''),
           (''results'', JArr [JObj [(''name'', JStr ''Luke Skywalker'')]])]))
   = (Inl TypeError, [''https://swapi.dev/api/people/''])"
  by (simp add: Home_def fetchPeople_def people_url_def person_item_def person_id_def
      get_prop_def nullish_def field_def)

section \<open>The detail page\<close>

text \<open>
  C4. The detail page is to read the id from the route, request the per-id endpoint
  for exactly that id once, and expose the parsed object for rendering. The effect
  does so when it runs (\<open>Character_effect_request\<close>), but no render of \<open>Character\<close>
  gets that far: the module imports \<open>useParams\<close> and calls \<open>useRouter\<close>, which is bound
  nowhere unless the host defines it as a global, so the first statement throws a
  ReferenceError; and on the first render, whatever the bindings, the state still
  holds \<open>null\<close>, so a render ends in a throw (the JSX reads \<open>character.name\<close>) and the
  effect is never scheduled.
\<close>

theorem Character_render_throws:
  "(''useRouter'' \<notin> set globals \<longrightarrow>
      Character globals router st = Inl (ReferenceError ''useRouter''))
   \<and> (\<exists>e. Character globals router initial_page = Inl e)"
proof -
  have v: "Character_view initial_page = Inl TypeError"
    by (simp add: Character_view_eq initial_page_def nullish_def)
  have "\<exists>e. Character globals router initial_page = Inl e"
    by (cases "get_prop router ''query''"; cases "get_prop (projr (get_prop router ''query'')) ''id''")
      (auto simp: Character_def v)
  then show ?thesis by (simp add: Character_def page_scope_def)
qed

theorem Character_render_throws_witness:
  "''useRouter'' \<notin> set [''fetch'', ''Math'', ''window'']
   \<and> Character [''fetch'', ''Math'', ''window'']
       (JObj [(''query'', JObj [(''id'', JStr ''1'')])])
       \<lparr>character = JObj [(''name'', JStr ''Leia'')], randomFact = JStr [], requests = [], inflight = []\<rparr>
     = Inl (ReferenceError ''useRouter'')"
  using Character_render_throws
    [of "[''fetch'', ''Math'', ''window'']" "JObj [(''query'', JObj [(''id'', JStr ''1'')])]"
        "\<lparr>character = JObj [(''name'', JStr ''Leia'')], randomFact = JStr [], requests = [], inflight = []\<rparr>"]
  by simp

text \<open>
  C5. At every point of the page's life, what it renders of the Character is what the
  last successful fetch returned. After any sequence of effect runs, settlements of
  the fetches in flight (in any order, overlapping or not) and button activations
  from the initial state, the \<open>character\<close> cell holds the response of the fetch that
  succeeded most recently (\<open>null\<close>, as \<open>useState(null)\<close> left it, when none has
  succeeded), and the render either shows, inside the layout, the name, mass, hair
  colour, skin colour and gender of that response or, with no response or a \<open>null\<close>
  one, throws and shows nothing.
\<close>

theorem rendered_fields_of_last_fetch:
  "character (run initial_page evs) =
     (case last_successful_fetch evs of None \<Rightarrow> JNull | Some d \<Rightarrow> d)
   \<and> Character_view (run initial_page evs) =
     (case last_successful_fetch evs of
        None \<Rightarrow> Inl TypeError
      | Some d \<Rightarrow>
          if nullish d then Inl TypeError
          else Inr (Tag ''div'' []
        [Tag ''nav'' []
           [Tag ''ul'' []
              [Tag ''li'' [] [Tag ''Link'' [(''href'', PStr ''/'')] [Txt ''Home'']],
               Tag ''li'' [] [Tag ''Link'' [(''href'', PStr ''/about'')] [Txt ''About'']],
               Tag ''li'' [] [Tag ''Link'' [(''href'', PStr ''/contact'')] [Txt ''Contact'']]]],
         Tag ''main'' []
           [Tag ''div'' []
              [Tag ''h1'' [] [Val (field d ''name'')],
               Tag ''p'' [] [Txt ''Mass: '', Val (field d ''mass'')],
               Tag ''p'' [] [Txt ''Hair Color: '', Val (field d ''hair_color'')],
               Tag ''p'' [] [Txt ''Skin Color: '', Val (field d ''skin_color'')],
               Tag ''p'' [] [Txt ''Gender: '', Val (field d ''gender'')],
               Tag ''button'' [(''onClick'', PHandler ''fetchRandomFact'')]
                 [Txt ''Show Random Fact''],
               Tag ''p'' [] [Val (randomFact (run initial_page evs))]]]]))"
proof -
  have c: "character (run initial_page evs) =
     (case last_successful_fetch evs of None \<Rightarrow> JNull | Some d \<Rightarrow> d)"
    using character_run [of initial_page evs]
    by (simp add: last_successful_fetch_def initial_page_def)
  show ?thesis
  proof (cases "last_successful_fetch evs")
    case None
    with c show ?thesis by (simp add: Character_view_eq nullish_def)
  next
    case (Some d)
    with c show ?thesis by (simp add: Character_view_eq)
  qed
qed

text \<open>
  Two fetches overlap here: the one for id 5 is issued first and settles last, so the
  page ends on its response.
\<close>

theorem rendered_fields_of_last_fetch_witness:
  "last_successful_fetch
     [EffectRun (JStr ''5''), EffectRun (JStr ''6''),
      Settle 1 (Json (JObj [(''name'', JStr ''Owen Lars''), (''mass'', JStr ''120'')])),
      Click (3 / 5),
      Settle 1 Rejects,
      Settle 0 (Json (JObj [(''name'', JStr ''Leia Organa''), (''mass'', JStr ''49'')]))]
     = Some (JObj [(''name'', JStr ''Leia Organa''), (''mass'', JStr ''49'')])
   \<and> requests (run initial_page
     [EffectRun (JStr ''5''), EffectRun (JStr ''6''),
      Settle 1 (Json (JObj [(''name'', JStr ''Owen Lars''), (''mass'', JStr ''120'')])),
      Click (3 / 5),
      Settle 1 Rejects,
      Settle 0 (Json (JObj [(''name'', JStr ''Leia Organa''), (''mass'', JStr ''49'')]))])
     = [''https://swapi.dev/api/people/5'', ''https://swapi.dev/api/people/6'']
   \<and> Character_view (run initial_page
     [EffectRun (JStr ''5''), EffectRun (JStr ''6''),
      Settle 1 (Json (JObj [(''name'', JStr ''Owen Lars''), (''mass'', JStr ''120'')])),
      Click (3 / 5),
      Settle 1 Rejects,
      Settle 0 (Json (JObj [(''name'', JStr ''Leia Organa''), (''mass'', JStr ''49'')]))])
     = Inr (Tag ''div'' []
        [Tag ''nav'' []
           [Tag ''ul'' []
              [Tag ''li'' [] [Tag ''Link'' [(''href'', PStr ''/'')] [Txt ''Home'']],
               Tag ''li'' [] [Tag ''Link'' [(''href'', PStr ''/about'')] [Txt ''About'']],
               Tag ''li'' [] [Tag ''Link'' [(''href'', PStr ''/contact'')] [Txt ''Contact'']]]],
         Tag ''main'' []
           [Tag ''div'' []
              [Tag ''h1'' [] [Val (JStr ''Leia Organa'')],
               Tag ''p'' [] [Txt ''Mass: '', Val (JStr ''49'')],
               Tag ''p'' [] [Txt ''Hair Color: '', Val (JUndefined)],
               Tag ''p'' [] [Txt ''Skin Color: '', Val (JUndefined)],
               Tag ''p'' [] [Txt ''Gender: '', Val (JUndefined)],
               Tag ''button'' [(''onClick'', PHandler ''fetchRandomFact'')]
                 [Txt ''Show Random Fact''],
               Tag ''p'' [] [Val (JStr [])]]]])"
  using rendered_fields_of_last_fetch
    [of "[EffectRun (JStr ''5''), EffectRun (JStr ''6''),
      Settle 1 (Json (JObj [(''name'', JStr ''Owen Lars''), (''mass'', JStr ''120'')])),
      Click (3 / 5),
      Settle 1 Rejects,
      Settle 0 (Json (JObj [(''name'', JStr ''Leia Organa''), (''mass'', JStr ''49'')]))]"]
  by (simp add: last_successful_fetch_def issues_fetch_def character_url_def run_def
      initial_page_def Character_effect_def fetchCharacter_call_def fetch_issue_def
      fetchCharacter_settle_def drop_nth_def fetchRandomFact_def facts_of_def template2_def
      get_prop_def nullish_def field_def)

text \<open>
  C6. A failing fetch or a failing parse is caught nowhere. In the list retrieval the
  rejection of \<open>fetch\<close> or of \<open>json()\<close> is the rejection of \<open>fetchPeople\<close> and of \<open>Home\<close>,
  unchanged. In the detail retrieval it is the rejection of the promise that
  \<open>fetchCharacter\<close> returns, which nothing awaits, whenever the fetch settles; the
  state keeps the character it had, so a page that has loaded nothing yet renders
  against \<open>null\<close> and throws. An id that cannot be converted to a string rejects the
  promise before any request, the state unchanged.
\<close>

theorem fetch_failures_unhandled:
  "(net people_url = Rejects \<longrightarrow>
      fetchPeople net = (Inl FetchRejected, [people_url])
      \<and> Home net = (Inl FetchRejected, [people_url]))
   \<and> (net people_url = NotJson \<longrightarrow>
      fetchPeople net = (Inl JsonSyntaxError, [people_url])
      \<and> Home net = (Inl JsonSyntaxError, [people_url]))
   \<and> (character_url i = Inr u \<and> net u = Rejects \<longrightarrow>
      fetchCharacter net i st
        = (st\<lparr>requests := requests st @ [u]\<rparr>, Some FetchRejected))
   \<and> (character_url i = Inr u \<and> net u = NotJson \<longrightarrow>
      fetchCharacter net i st
        = (st\<lparr>requests := requests st @ [u]\<rparr>, Some JsonSyntaxError))
   \<and> (character_url i = Inl e \<longrightarrow> fetchCharacter net i st = (st, Some e))
   \<and> (out = Rejects \<or> out = NotJson \<longrightarrow>
      snd (fetchCharacter_settle k out st)
        = Some (if out = Rejects then FetchRejected else JsonSyntaxError)
      \<and> character (step st (Settle k out)) = character st
      \<and> randomFact (step st (Settle k out)) = randomFact st
      \<and> requests (step st (Settle k out)) = requests st
      \<and> Character_view (run initial_page [EffectRun i, Settle 0 out]) = Inl TypeError)"
proof -
  have list: "(net people_url = Rejects \<longrightarrow>
      fetchPeople net = (Inl FetchRejected, [people_url])
      \<and> Home net = (Inl FetchRejected, [people_url]))
   \<and> (net people_url = NotJson \<longrightarrow>
      fetchPeople net = (Inl JsonSyntaxError, [people_url])
      \<and> Home net = (Inl JsonSyntaxError, [people_url]))"
    by (auto simp: fetchPeople_def Home_def)
  have detail: "(character_url i = Inr u \<and> net u = Rejects \<longrightarrow>
      fetchCharacter net i st
        = (st\<lparr>requests := requests st @ [u]\<rparr>, Some FetchRejected))
   \<and> (character_url i = Inr u \<and> net u = NotJson \<longrightarrow>
      fetchCharacter net i st
        = (st\<lparr>requests := requests st @ [u]\<rparr>, Some JsonSyntaxError))
   \<and> (character_url i = Inl e \<longrightarrow> fetchCharacter net i st = (st, Some e))"
    by (auto simp: fetchCharacter_eq)
  have settle: "snd (fetchCharacter_settle k out st)
        = Some (if out = Rejects then FetchRejected else JsonSyntaxError)
      \<and> character (step st (Settle k out)) = character st
      \<and> randomFact (step st (Settle k out)) = randomFact st
      \<and> requests (step st (Settle k out)) = requests st
      \<and> Character_view (run initial_page [EffectRun i, Settle 0 out]) = Inl TypeError"
    if out: "out = Rejects \<or> out = NotJson"
  proof -
    have s: "snd (fetchCharacter_settle k out st)
        = Some (if out = Rejects then FetchRejected else JsonSyntaxError)"
      using out by (auto simp: fetchCharacter_settle_def Let_def)
    have f: "character (step st (Settle k out)) = character st
      \<and> randomFact (step st (Settle k out)) = randomFact st
      \<and> requests (step st (Settle k out)) = requests st"
      using out by (auto simp: fetchCharacter_settle_def Let_def)
    have "successful_fetches 0 [EffectRun i, Settle 0 out] = []"
      using out by auto
    then have "character (run initial_page [EffectRun i, Settle 0 out]) = JNull"
      using character_run [of initial_page "[EffectRun i, Settle 0 out]"]
      by (simp add: initial_page_def)
    then have "Character_view (run initial_page [EffectRun i, Settle 0 out]) = Inl TypeError"
      by (simp add: Character_view_eq nullish_def)
    with s f show ?thesis by simp
  qed
  from list detail settle show ?thesis by blast
qed

theorem fetch_failures_unhandled_witness:
  "Home (\<lambda>u. if u = people_url then Rejects else NotJson) = (Inl FetchRejected, [people_url])
   \<and> Home (\<lambda>u. if u = people_url then NotJson else Rejects) = (Inl JsonSyntaxError, [people_url])
   \<and> fetchCharacter (\<lambda>u. if u = people_url then NotJson else Rejects) (JStr ''1'') initial_page
      = (initial_page\<lparr>requests := [''https://swapi.dev/api/people/1'']\<rparr>, Some FetchRejected)
   \<and> fetchCharacter (\<lambda>u. if u = people_url then Rejects else NotJson) (JStr ''1'') initial_page
      = (initial_page\<lparr>requests := [''https://swapi.dev/api/people/1'']\<rparr>, Some JsonSyntaxError)
   \<and> fetchCharacter (\<lambda>u. Rejects) (JObj [(''toString'', JNum ''1'')]) initial_page
      = (initial_page, Some TypeError)
   \<and> Character_view (run initial_page [EffectRun (JStr ''1''), Settle 0 Rejects]) = Inl TypeError
   \<and> Character_view (run initial_page [EffectRun (JStr ''1''), Settle 0 NotJson]) = Inl TypeError"
  using fetch_failures_unhandled
      [of "\<lambda>u. if u = people_url then Rejects else NotJson" "JStr ''1''"
          "''https://swapi.dev/api/people/1''" initial_page TypeError Rejects 0]
    fetch_failures_unhandled
      [of "\<lambda>u. if u = people_url then NotJson else Rejects" "JStr ''1''"
          "''https://swapi.dev/api/people/1''" initial_page TypeError NotJson 0]
    fetch_failures_unhandled
      [of "\<lambda>u. Rejects" "JObj [(''toString'', JNum ''1'')]"
          "''https://swapi.dev/api/people/1''" initial_page TypeError Rejects 0]
  by (simp add: character_url_def people_url_def initial_page_def)

section \<open>The random-fact selector\<close>

text \<open>
  C2 (as amended). For a loaded Character (neither null nor undefined) whose \<open>films\<close>
  is neither null nor undefined and whose name, film count, height, eye colour and
  birth year each convert to a string, and \<open>Math.random()\<close> returning \<open>r\<close> in \<open>[0, 1)\<close>,
  an activation of the selector succeeds and stores one of exactly four sentences
  built from those strings: the one at index \<open>floor (r * 4)\<close>. Index \<open>k\<close> is chosen
  exactly for the \<open>r\<close> of the quarter \<open>[k/4, (k+1)/4)\<close> of \<open>[0, 1)\<close>: four intervals of
  the same length, so an \<open>r\<close> drawn uniformly gives each index with the same
  probability.
\<close>

theorem fetchRandomFact_one_of_four:
  assumes loaded: "\<not> nullish (character st)"
    and films: "\<not> nullish (field (character st) ''films'')"
    and name: "to_string (field (character st) ''name'') = Inr name"
    and film_count: "to_string (field (field (character st) ''films'') ''length'') = Inr film_count"
    and height: "to_string (field (character st) ''height'') = Inr height"
    and eye_color: "to_string (field (character st) ''eye_color'') = Inr eye_color"
    and birth_year: "to_string (field (character st) ''birth_year'') = Inr birth_year"
    and r: "0 \<le> r" "r < 1"
    and facts: "facts =
       [name @ '' appeared in '' @ film_count @ '' films.'',
        name @ '' is '' @ height @ ''cm tall.'',
        name @ '' has '' @ eye_color @ '' eyes.'',
        name @ [CHR 0x27] @ ''s birth year is '' @ birth_year @ ''.'']"
  shows "fetchRandomFact r st = Inr (st\<lparr>randomFact := JStr (facts ! nat (fact_index r 4))\<rparr>)
     \<and> facts ! nat (fact_index r 4) \<in> set facts
     \<and> length facts = 4
     \<and> fact_index r 4 \<in> {0, 1, 2, 3}
     \<and> (\<forall>k. (fact_index r 4 = k) = (real_of_int k / 4 \<le> r \<and> r < (real_of_int k + 1) / 4))
     \<and> (\<forall>k\<in>{0, 1, 2, 3}.
          {x. 0 \<le> x \<and> x < 1 \<and> fact_index x 4 = k}
            = {real_of_int k / 4 ..< (real_of_int k + 1) / 4})"
proof -
  have len: "length facts = 4" by (simp add: facts)
  have fo: "facts_of (character st) = Inr facts"
    unfolding facts
    by (rule facts_of_Inr [OF loaded films name film_count height eye_color birth_year])
  have b: "0 \<le> fact_index r 4 \<and> fact_index r 4 < 4"
    using fact_index_bounds [OF r, of 4] by simp
  then have idx: "index_js facts (fact_index r 4) = JStr (facts ! nat (fact_index r 4))"
    by (simp add: index_js_in_range len)
  have run: "fetchRandomFact r st = Inr (st\<lparr>randomFact := JStr (facts ! nat (fact_index r 4))\<rparr>)"
    by (simp add: fetchRandomFact_def fo len idx)
  have mem: "facts ! nat (fact_index r 4) \<in> set facts"
    using b len by (intro nth_mem) (simp add: nat_less_iff)
  have four: "fact_index r 4 \<in> {0, 1, 2, 3}"
    using b by auto
  have quarters: "\<forall>k\<in>{0, 1, 2, 3}.
      {x. 0 \<le> x \<and> x < 1 \<and> fact_index x 4 = k}
        = {real_of_int k / 4 ..< (real_of_int k + 1) / 4}"
    using fact_index_quarter by blast
  from run mem len four fact_index_iff quarters show ?thesis by blast
qed

text \<open>Each of the four sentences, for a Character of two films.\<close>

theorem fetchRandomFact_one_of_four_witness:
  "fetchRandomFact (1 / 10)
     \<lparr>character = JObj [(''name'', JStr ''Luke Skywalker''), (''height'', JNum ''172''),
        (''eye_color'', JStr ''blue''), (''birth_year'', JStr ''19BBY''),
        (''films'', JArr [JStr ''https://swapi.dev/api/films/1/'', JStr ''https://swapi.dev/api/films/2/''])],
      randomFact = JStr [], requests = [], inflight = []\<rparr>
   = Inr \<lparr>character = JObj [(''name'', JStr ''Luke Skywalker''), (''height'', JNum ''172''),
        (''eye_color'', JStr ''blue''), (''birth_year'', JStr ''19BBY''),
        (''films'', JArr [JStr ''https://swapi.dev/api/films/1/'', JStr ''https://swapi.dev/api/films/2/''])],
      randomFact = JStr ''Luke Skywalker appeared in 2 films.'', requests = [], inflight = []\<rparr>
   \<and> fetchRandomFact (3 / 10)
     \<lparr>character = JObj [(''name'', JStr ''Luke Skywalker''), (''height'', JNum ''172''),
        (''eye_color'', JStr ''blue''), (''birth_year'', JStr ''19BBY''),
        (''films'', JArr [JStr ''https://swapi.dev/api/films/1/'', JStr ''https://swapi.dev/api/films/2/''])],
      randomFact = JStr [], requests = [], inflight = []\<rparr>
   = Inr \<lparr>character = JObj [(''name'', JStr ''Luke Skywalker''), (''height'', JNum ''172''),
        (''eye_color'', JStr ''blue''), (''birth_year'', JStr ''19BBY''),
        (''films'', JArr [JStr ''https://swapi.dev/api/films/1/'', JStr ''https://swapi.dev/api/films/2/''])],
      randomFact = JStr ''Luke Skywalker is 172cm tall.'', requests = [], inflight = []\<rparr>
   \<and> fetchRandomFact (3 / 5)
     \<lparr>character = JObj [(''name'', JStr ''Luke Skywalker''), (''height'', JNum ''172''),
        (''eye_color'', JStr ''blue''), (''birth_year'', JStr ''19BBY''),
        (''films'', JArr [JStr ''https://swapi.dev/api/films/1/'', JStr ''https://swapi.dev/api/films/2/''])],
      randomFact = JStr [], requests = [], inflight = []\<rparr>
   = Inr \<lparr>character = JObj [(''name'', JStr ''Luke Skywalker''), (''height'', JNum ''172''),
        (''eye_color'', JStr ''blue''), (''birth_year'', JStr ''19BBY''),
        (''films'', JArr [JStr ''https://swapi.dev/api/films/1/'', JStr ''https://swapi.dev/api/films/2/''])],
      randomFact = JStr ''Luke Skywalker has blue eyes.'', requests = [], inflight = []\<rparr>
   \<and> fetchRandomFact (9 / 10)
     \<lparr>character = JObj [(''name'', JStr ''Luke Skywalker''), (''height'', JNum ''172''),
        (''eye_color'', JStr ''blue''), (''birth_year'', JStr ''19BBY''),
        (''films'', JArr [JStr ''https://swapi.dev/api/films/1/'', JStr ''https://swapi.dev/api/films/2/''])],
      randomFact = JStr [], requests = [], inflight = []\<rparr>
   = Inr \<lparr>character = JObj [(''name'', JStr ''Luke Skywalker''), (''height'', JNum ''172''),
        (''eye_color'', JStr ''blue''), (''birth_year'', JStr ''19BBY''),
        (''films'', JArr [JStr ''https://swapi.dev/api/films/1/'', JStr ''https://swapi.dev/api/films/2/''])],
      randomFact = JStr (''Luke Skywalker'' @ [CHR 0x27] @ ''s birth year is 19BBY.''), requests = [], inflight = []\<rparr>"
  using fetchRandomFact_one_of_four
      [of "\<lparr>character = JObj [(''name'', JStr ''Luke Skywalker''), (''height'', JNum ''172''),
        (''eye_color'', JStr ''blue''), (''birth_year'', JStr ''19BBY''),
        (''films'', JArr [JStr ''https://swapi.dev/api/films/1/'', JStr ''https://swapi.dev/api/films/2/''])],
      randomFact = JStr [], requests = [], inflight = []\<rparr>" "''Luke Skywalker''" "''2''" "''172''" "''blue''" "''19BBY''" "1 / 10", OF _ _ _ _ _ _ _ _ _ refl]
    fetchRandomFact_one_of_four
      [of "\<lparr>character = JObj [(''name'', JStr ''Luke Skywalker''), (''height'', JNum ''172''),
        (''eye_color'', JStr ''blue''), (''birth_year'', JStr ''19BBY''),
        (''films'', JArr [JStr ''https://swapi.dev/api/films/1/'', JStr ''https://swapi.dev/api/films/2/''])],
      randomFact = JStr [], requests = [], inflight = []\<rparr>" "''Luke Skywalker''" "''2''" "''172''" "''blue''" "''19BBY''" "3 / 10", OF _ _ _ _ _ _ _ _ _ refl]
    fetchRandomFact_one_of_four
      [of "\<lparr>character = JObj [(''name'', JStr ''Luke Skywalker''), (''height'', JNum ''172''),
        (''eye_color'', JStr ''blue''), (''birth_year'', JStr ''19BBY''),
        (''films'', JArr [JStr ''https://swapi.dev/api/films/1/'', JStr ''https://swapi.dev/api/films/2/''])],
      randomFact = JStr [], requests = [], inflight = []\<rparr>" "''Luke Skywalker''" "''2''" "''172''" "''blue''" "''19BBY''" "3 / 5", OF _ _ _ _ _ _ _ _ _ refl]
    fetchRandomFact_one_of_four
      [of "\<lparr>character = JObj [(''name'', JStr ''Luke Skywalker''), (''height'', JNum ''172''),
        (''eye_color'', JStr ''blue''), (''birth_year'', JStr ''19BBY''),
        (''films'', JArr [JStr ''https://swapi.dev/api/films/1/'', JStr ''https://swapi.dev/api/films/2/''])],
      randomFact = JStr [], requests = [], inflight = []\<rparr>" "''Luke Skywalker''" "''2''" "''172''" "''blue''" "''19BBY''" "9 / 10", OF _ _ _ _ _ _ _ _ _ refl]
  by (simp add: nullish_def field_def fact_index_def string_of_nat.simps digit_char_def)

text \<open>
  The claim as first stated, for every Character whose five fields are defined, fails
  for a name that is an object with a \<open>toString\<close> property of its own: all five fields
  are defined, the first template literal throws, and no fact is stored.
\<close>

theorem fetchRandomFact_unprintable_name_counterexample:
  "fetchRandomFact (3 / 5)
     \<lparr>character = JObj [(''name'', JObj [(''toString'', JNum ''1'')]), (''height'', JStr ''150''),
        (''eye_color'', JStr ''brown''), (''birth_year'', JStr ''19BBY''), (''films'', JArr [])],
      randomFact = JStr [], requests = [], inflight = []\<rparr>
   = Inl TypeError"
  by (simp add: fetchRandomFact_def facts_of_def template2_def get_prop_def nullish_def field_def)

text \<open>
  C7. An activation of the selector changes the \<open>randomFact\<close> cell only: the character
  and the log of network requests are as before (it requests nothing), also when the
  handler throws.
\<close>

theorem fetchRandomFact_frame:
  "(case fetchRandomFact r st of
      Inl e \<Rightarrow> True
    | Inr st' \<Rightarrow> st' = st\<lparr>randomFact := randomFact st'\<rparr>
        \<and> character st' = character st \<and> requests st' = requests st)
   \<and> step st (Click r) = st\<lparr>randomFact := randomFact (step st (Click r))\<rparr>
   \<and> character (step st (Click r)) = character st
   \<and> requests (step st (Click r)) = requests st"
  by (cases "facts_of (character st)") (simp_all add: fetchRandomFact_def)

theorem fetchRandomFact_frame_witness:
  "fetchRandomFact (1 / 10)
       \<lparr>character = JObj [(''name'', JStr ''Leia''), (''films'', JArr [JStr ''f'']), (''height'', JNum ''150'')],
      randomFact = JStr [], requests = [''https://swapi.dev/api/people/5''], inflight = []\<rparr>
     = Inr \<lparr>character = JObj [(''name'', JStr ''Leia''), (''films'', JArr [JStr ''f'']), (''height'', JNum ''150'')],
      randomFact = JStr ''Leia appeared in 1 films.'', requests = [''https://swapi.dev/api/people/5''], inflight = []\<rparr>"
  using fetchRandomFact_frame
    [where r = "1 / 10" and st =
        "\<lparr>character = JObj [(''name'', JStr ''Leia''), (''films'', JArr [JStr ''f'']), (''height'', JNum ''150'')],
      randomFact = JStr [], requests = [''https://swapi.dev/api/people/5''], inflight = []\<rparr>"]
  by (simp add: fetchRandomFact_def facts_of_def template2_def get_prop_def nullish_def field_def
      fact_index_def index_js_def string_of_nat.simps digit_char_def)

text \<open>
  C9. With \<open>r\<close> in \<open>[0, 1)\<close> and four facts, the index \<open>floor (r * 4)\<close> lies between 0 and
  3, so \<open>facts[i]\<close> is an element of the array, and whenever the selector stores a
  fact it is a string, never \<open>undefined\<close>.
\<close>

theorem fact_index_in_bounds:
  assumes r: "0 \<le> r" "r < 1"
  shows "0 \<le> fact_index r 4 \<and> fact_index r 4 \<le> 3
     \<and> (\<forall>facts. length facts = 4 \<longrightarrow>
          index_js facts (fact_index r (length facts)) = JStr (facts ! nat (fact_index r 4)))
     \<and> (\<forall>st'. fetchRandomFact r st = Inr st' \<longrightarrow>
          randomFact st' \<noteq> JUndefined \<and> (\<exists>s. randomFact st' = JStr s))"
proof -
  have b: "0 \<le> fact_index r 4 \<and> fact_index r 4 < 4"
    using fact_index_bounds [OF r, of 4] by simp
  have i: "index_js facts (fact_index r (length facts)) = JStr (facts ! nat (fact_index r 4))"
    if "length facts = 4" for facts :: "string list"
    using b that by (simp add: index_js_in_range)
  have s: "randomFact st' \<noteq> JUndefined \<and> (\<exists>s. randomFact st' = JStr s)"
    if "fetchRandomFact r st = Inr st'" for st'
  proof -
    from that obtain facts where f: "facts_of (character st) = Inr facts"
      and st': "st' = st\<lparr>randomFact := index_js facts (fact_index r (length facts))\<rparr>"
      by (cases "facts_of (character st)") (auto simp: fetchRandomFact_def)
    from f have "length facts = 4" by (rule facts_of_length)
    with i st' show ?thesis by simp
  qed
  from b i s show ?thesis by auto
qed

theorem fact_index_in_bounds_witness:
  "0 \<le> (999 / 1000 :: real) \<and> (999 / 1000 :: real) < 1
   \<and> fact_index (999 / 1000) 4 = 3
   \<and> fetchRandomFact (999 / 1000)
       \<lparr>character = JObj [(''name'', JStr ''Leia''), (''films'', JArr []), (''birth_year'', JStr ''19BBY'')],
      randomFact = JStr [], requests = [], inflight = []\<rparr>
     = Inr \<lparr>character = JObj [(''name'', JStr ''Leia''), (''films'', JArr []), (''birth_year'', JStr ''19BBY'')],
      randomFact = JStr (''Leia'' @ [CHR 0x27] @ ''s birth year is 19BBY.''), requests = [], inflight = []\<rparr>"
  using fact_index_in_bounds
    [of "999 / 1000"
        "\<lparr>character = JObj [(''name'', JStr ''Leia''), (''films'', JArr []), (''birth_year'', JStr ''19BBY'')],
      randomFact = JStr [], requests = [], inflight = []\<rparr>"]
  by (simp add: fetchRandomFact_def facts_of_def template2_def get_prop_def nullish_def field_def
      fact_index_def index_js_def string_of_nat.simps digit_char_def)

section \<open>The static pages and the router\<close>

text \<open>
  C8. The About page and the Contact page return the same fixed markup (a constant
  heading and paragraph) for every input: two calls, on any two arguments of any
  types, give the same tree.
\<close>

theorem static_pages_fixed:
  "About p =
     Tag ''div'' []
       [Tag ''h1'' [] [Txt ''About''],
        Tag ''p'' [] [Txt ''This is the Star Wars app built with Next.js, leveraging SWAPI.'']]
   \<and> Contact q =
     Tag ''div'' []
       [Tag ''h1'' [] [Txt ''Contact''],
        Tag ''p'' [] [Txt ''You can reach us at contact@swapiapp.com.'']]
   \<and> About p = About p' \<and> Contact q = Contact q'"
  by (simp add: About_def Contact_def)

text \<open>
  C10. The router of App.js defines exactly two routes: the path \<open>/\<close> with the
  RecipeList component and the path \<open>/recipe/:id\<close> with the RecipeDetail component, in
  this order; no route has the path \<open>/about\<close> or \<open>/contact\<close>.
\<close>

theorem App_routes:
  "routes_of (App p) =
     [(Some ''/'', Some ''RecipeList''), (Some ''/recipe/:id'', Some ''RecipeDetail'')]
   \<and> length (routes_of (App p)) = 2
   \<and> Some ''/about'' \<notin> fst ` set (routes_of (App p))
   \<and> Some ''/contact'' \<notin> fst ` set (routes_of (App p))"
  by (simp add: App_def route_path_def route_element_def)

end
